theory Spec2Isabelle
  imports Complex_Main
begin

section \<open>Python values used by Scripnya.py\<close>

text \<open>
  Exceptions are values. \<open>ValueError\<close> is the \<open>ValueError("Invalid response")\<close> of
  \<open>valid_resp\<close>; \<open>DecodeError\<close> stands for a body or a file that is not JSON,
  \<open>ClientError\<close> for a failure of the network layer (connection error, timeout),
  \<open>OSError\<close> for a file that cannot be opened, \<open>SystemExit\<close> for \<open>exit()\<close> and
  \<open>raise SystemExit\<close>.
\<close>

datatype error =
  ValueError | KeyError | IndexError | TypeError | AttributeError
  | OSError | DecodeError | ClientError | SystemExit

text \<open>
  What \<open>json.load\<close> and \<open>response.json()\<close> return: \<open>None\<close>, a bool, an
  integer, a float, a string, a list or a dict with string keys. A float is given by
  its value as a real number: the code reads a float only through its truth value and
  through \<open>< 0\<close> and \<open>== 0\<close>, which depend on that value alone. The constants
  \<open>NaN\<close>, \<open>Infinity\<close> and \<open>-Infinity\<close>, which JSON does not have and
  \<open>json.loads\<close> accepts, have no constructor of their own: in these three tests
  \<open>NaN\<close> and \<open>Infinity\<close> answer as a positive float does and \<open>-Infinity\<close> as
  a negative one. A dict is the list of its items in insertion order.
\<close>

datatype json =
  JNull | JBool bool | JInt int | JFloat real | JStr string
  | JList "json list" | JObj "(string \<times> json) list"

text \<open>Truth value of an object, as \<open>if x:\<close> and \<open>not x\<close> read it.\<close>

fun truthy :: "json \<Rightarrow> bool" where
  "truthy JNull = False"
| "truthy (JBool b) = b"
| "truthy (JInt n) = (n \<noteq> 0)"
| "truthy (JFloat x) = (x \<noteq> 0)"
| "truthy (JStr s) = (s \<noteq> [])"
| "truthy (JList xs) = (xs \<noteq> [])"
| "truthy (JObj kvs) = (kvs \<noteq> [])"

text \<open>\<open>k in s\<close> for two strings: \<open>k\<close> occurs in \<open>s\<close> as a contiguous piece.\<close>

fun str_contains :: "string \<Rightarrow> string \<Rightarrow> bool" where
  "str_contains [] k = (k = [])"
| "str_contains (c # s) k = (take (length k) (c # s) = k \<or> str_contains s k)"

text \<open>
  \<open>k in x\<close> for a string \<open>k\<close>: membership of the key in a dict, of the string in a
  list, the substring test on a string; \<open>None\<close>, bools and numbers are not iterable.
\<close>

fun py_contains :: "json \<Rightarrow> string \<Rightarrow> error + bool" where
  "py_contains (JObj kvs) k = Inr (map_of kvs k \<noteq> None)"
| "py_contains (JList xs) k = Inr (List.member xs (JStr k))"
| "py_contains (JStr s) k = Inr (str_contains s k)"
| "py_contains JNull k = Inl TypeError"
| "py_contains (JBool b) k = Inl TypeError"
| "py_contains (JInt n) k = Inl TypeError"
| "py_contains (JFloat x) k = Inl TypeError"

text \<open>
  \<open>x[k]\<close> for a string \<open>k\<close>: the dict's item or \<open>KeyError\<close>; lists and strings take
  integer indices only, the other values are not subscriptable.
\<close>

fun py_getitem :: "json \<Rightarrow> string \<Rightarrow> error + json" where
  "py_getitem (JObj kvs) k = (case map_of kvs k of None \<Rightarrow> Inl KeyError | Some v \<Rightarrow> Inr v)"
| "py_getitem (JList xs) k = Inl TypeError"
| "py_getitem (JStr s) k = Inl TypeError"
| "py_getitem JNull k = Inl TypeError"
| "py_getitem (JBool b) k = Inl TypeError"
| "py_getitem (JInt n) k = Inl TypeError"
| "py_getitem (JFloat x) k = Inl TypeError"

text \<open>\<open>x.get(k, d)\<close>: only a dict has the method.\<close>

fun py_get :: "json \<Rightarrow> string \<Rightarrow> json \<Rightarrow> error + json" where
  "py_get (JObj kvs) k d = Inr (case map_of kvs k of None \<Rightarrow> d | Some v \<Rightarrow> v)"
| "py_get (JList xs) k d = Inl AttributeError"
| "py_get (JStr s) k d = Inl AttributeError"
| "py_get JNull k d = Inl AttributeError"
| "py_get (JBool b) k d = Inl AttributeError"
| "py_get (JInt n) k d = Inl AttributeError"
| "py_get (JFloat x) k d = Inl AttributeError"

text \<open>
  \<open>x < 0\<close> and \<open>x == 0\<close>. A bool is the integer 0 or 1 and a float compares by
  its value; ordering \<open>None\<close>, a string, a list or a dict against an integer raises
  \<open>TypeError\<close>, comparing them for equality with an integer is \<open>False\<close>.
\<close>

fun py_lt0 :: "json \<Rightarrow> error + bool" where
  "py_lt0 (JInt n) = Inr (n < 0)"
| "py_lt0 (JFloat x) = Inr (x < 0)"
| "py_lt0 (JBool b) = Inr False"
| "py_lt0 JNull = Inl TypeError"
| "py_lt0 (JStr s) = Inl TypeError"
| "py_lt0 (JList xs) = Inl TypeError"
| "py_lt0 (JObj kvs) = Inl TypeError"

fun py_eq0 :: "json \<Rightarrow> bool" where
  "py_eq0 (JInt n) = (n = 0)"
| "py_eq0 (JFloat x) = (x = 0)"
| "py_eq0 (JBool b) = (\<not> b)"
| "py_eq0 JNull = False"
| "py_eq0 (JStr s) = False"
| "py_eq0 (JList xs) = False"
| "py_eq0 (JObj kvs) = False"

section \<open>Response validation\<close>

text \<open>
  \<open>valid_resp\<close>: \<open>if not resp or "code" not in resp or resp["code"] < 0: raise
  ValueError("Invalid response")\<close>, the three tests evaluated left to right, each only
  when the earlier ones are false; otherwise the response is returned.
\<close>

definition valid_resp :: "json \<Rightarrow> error + json" where
  "valid_resp resp =
     (if \<not> truthy resp then Inl ValueError
      else (case py_contains resp ''code'' of
        Inl e \<Rightarrow> Inl e
      | Inr has_code \<Rightarrow>
          (if \<not> has_code then Inl ValueError
           else (case py_getitem resp ''code'' of
             Inl e \<Rightarrow> Inl e
           | Inr c \<Rightarrow>
               (case py_lt0 c of
                  Inl e \<Rightarrow> Inl e
                | Inr negative \<Rightarrow> (if negative then Inl ValueError else Inr resp))))))"

section \<open>The session file and the json module\<close>

text \<open>
  \<open>session.json\<close> as the code sees it: whether \<open>os.path.exists\<close> holds, whether
  \<open>open(.., 'r')\<close> and \<open>open(.., 'w')\<close> succeed, and the text stored. For a file
  that does not exist, \<open>writable\<close> says that it can be created.
\<close>

record file_state =
  present :: bool
  readable :: bool
  writable :: bool
  contents :: string

text \<open>
  The json module is a library outside the repository and is taken as a parameter:
  \<open>dumps\<close> is the text \<open>json.dump\<close> writes, \<open>loads\<close> is what \<open>json.load\<close> reads
  from a text, \<open>None\<close> where it raises.
\<close>

record codec =
  dumps :: "json \<Rightarrow> string"
  loads :: "string \<Rightarrow> json option"

text \<open>
  Writing a text with \<open>open(.., 'w')\<close>: an existing file keeps its permissions, a new
  file is created readable.
\<close>

definition write_file :: "string \<Rightarrow> file_state \<Rightarrow> file_state" where
  "write_file s f =
     f\<lparr>present := True, readable := (if present f then readable f else True), contents := s\<rparr>"

text \<open>The body of the \<open>try\<close> in \<open>load_session_info\<close>: open, then \<open>json.load\<close>.\<close>

definition read_session :: "codec \<Rightarrow> file_state \<Rightarrow> error + json" where
  "read_session c f =
     (if \<not> readable f then Inl OSError
      else (case loads c (contents f) of None \<Rightarrow> Inl DecodeError | Some d \<Rightarrow> Inr d))"

text \<open>
  \<open>load_session_info\<close>: \<open>None\<close> when the file does not exist; every exception of the
  body is caught (\<open>except Exception\<close>) and gives \<open>None\<close> too.
\<close>

definition load_session_info :: "codec \<Rightarrow> file_state \<Rightarrow> json" where
  "load_session_info c f =
     (if present f
      then (case read_session c f of Inl e \<Rightarrow> JNull | Inr session_data \<Rightarrow> session_data)
      else JNull)"

text \<open>
  \<open>save_session_info\<close>: the file is opened for writing and the data dumped; then the
  log line evaluates \<open>data.get('uid')\<close>, which raises for data that is not a dict,
  after the file has been written. Nothing is caught.
\<close>

definition save_session_info :: "codec \<Rightarrow> json \<Rightarrow> file_state \<Rightarrow> (error + unit) \<times> file_state" where
  "save_session_info c data f =
     (if \<not> writable f then (Inl OSError, f)
      else (case py_get data ''uid'' JNull of
              Inl e \<Rightarrow> (Inl e, write_file (dumps c data) f)
            | Inr uid \<Rightarrow> (Inr (), write_file (dumps c data) f)))"

section \<open>Global state and the remote service\<close>

text \<open>\<open>CONNECTION_STATES\<close>.\<close>

definition CONNECTED :: nat where "CONNECTED = 1"
definition DISCONNECTED :: nat where "DISCONNECTED = 2"
definition NONE_CONNECTION :: nat where "NONE_CONNECTION = 3"

text \<open>The module's globals, and the session file.\<close>

record world =
  status_connect :: nat
  browser_id :: json
  account_info :: json
  session_file :: file_state

text \<open>The globals when the module has been loaded, over a given session file.\<close>

definition initial_world :: "file_state \<Rightarrow> world" where
  "initial_world f =
     \<lparr>status_connect = NONE_CONNECTION, browser_id = JNull, account_info = JObj [],
      session_file = f\<rparr>"

text \<open>
  What one request through a proxy comes to: the network layer raises (connection
  error, timeout), or a response arrives with its status and its body as
  \<open>response.json()\<close> decodes it (\<open>None\<close> where decoding raises).
\<close>

datatype http_event = NetFailure | HttpResponse nat "json option"

text \<open>
  \<open>is_valid_proxy\<close>: \<open>True\<close> on status 200; any other status, and any exception, is
  logged and gives \<open>False\<close>.
\<close>

fun is_valid_proxy :: "http_event \<Rightarrow> bool" where
  "is_valid_proxy NetFailure = False"
| "is_valid_proxy (HttpResponse status body) = (status = 200)"

text \<open>
  The body of the \<open>try\<close> in \<open>handle_ping\<close>. The request data is built first
  (\<open>account_info.get("uid")\<close>), then the request is made. The two \<open>else\<close> branches
  log and fall through to the final \<open>return False\<close>.
\<close>

definition ping_body :: "http_event \<Rightarrow> world \<Rightarrow> error + bool \<times> world" where
  "ping_body ev w =
     (case py_get (account_info w) ''uid'' JNull of
        Inl e \<Rightarrow> Inl e
      | Inr uid \<Rightarrow>
          (case ev of
             NetFailure \<Rightarrow> Inl ClientError
           | HttpResponse status body \<Rightarrow>
               (if status = 200 then
                  (case body of
                     None \<Rightarrow> Inl DecodeError
                   | Some json_resp \<Rightarrow>
                       (case valid_resp json_resp of
                          Inl e \<Rightarrow> Inl e
                        | Inr r \<Rightarrow>
                            (case py_getitem json_resp ''code'' of
                               Inl e \<Rightarrow> Inl e
                             | Inr c \<Rightarrow>
                                 (if py_eq0 c
                                  then Inr (True, w\<lparr>status_connect := CONNECTED\<rparr>)
                                  else Inr (False, w)))))
                else Inr (False, w))))"

text \<open>\<open>handle_ping\<close>: every exception of the body is caught and logged; \<open>False\<close> then.\<close>

definition handle_ping :: "http_event \<Rightarrow> world \<Rightarrow> bool \<times> world" where
  "handle_ping ev w = (case ping_body ev w of Inl e \<Rightarrow> (False, w) | Inr r \<Rightarrow> r)"

text \<open>
  \<open>render_profile_info\<close> is a coroutine: it runs until it has to wait, other tasks
  run meanwhile, and it goes on from there with the globals as they are then. Where a
  task stands between two such stretches:
  \<^item> \<open>NotStarted\<close>: created, not yet run;
  \<^item> \<open>AwaitResponse\<close>: waiting in \<open>session.post\<close> for the response;
  \<^item> \<open>AwaitBody\<close>: the status was 200, waiting in \<open>response.json()\<close> for the body
    (the body that will be read, \<open>None\<close> where decoding raises);
  \<^item> \<open>Leaving\<close>: past the last statement inside the \<open>async with\<close> blocks, which
    are being left; \<open>return account_info\<close> is still to come;
  \<^item> \<open>Finished\<close>: returned a value, or left by an exception.
\<close>

datatype task_state =
  NotStarted | AwaitResponse | AwaitBody "json option" | Leaving | Finished "error + json"

text \<open>
  From the entry to the first wait. \<open>fresh\<close> is the string \<open>uuidv4()\<close> returns.
  With a session loaded the function has nothing to wait for and returns in the same
  stretch.
\<close>

definition render_start :: "codec \<Rightarrow> string \<Rightarrow> world \<Rightarrow> task_state \<times> world" where
  "render_start c fresh w =
     (let session_info = load_session_info c (session_file w) in
      if truthy session_info then
        (let w1 = w\<lparr>account_info := session_info\<rparr> in
         (case py_get (account_info w1) ''browser_id'' JNull of
            Inl e \<Rightarrow> (Finished (Inl e), w1)
          | Inr b \<Rightarrow> (Finished (Inr (account_info w1)), w1\<lparr>browser_id := b\<rparr>)))
      else (AwaitResponse, w\<lparr>browser_id := JStr fresh\<rparr>))"

text \<open>
  \<open>session.post\<close> comes back: with an exception of the network layer, or with a
  response, whose status is tested.
\<close>

definition render_on_response :: "http_event \<Rightarrow> world \<Rightarrow> task_state \<times> world" where
  "render_on_response ev w =
     (case ev of
        NetFailure \<Rightarrow> (Finished (Inl ClientError), w)
      | HttpResponse status body \<Rightarrow>
          (if status = 200 then (AwaitBody body, w) else (Leaving, w)))"

text \<open>
  \<open>response.json()\<close> comes back: validation, the assignment to \<open>account_info\<close>,
  the test of its \<open>uid\<close> and the save. There is no \<open>try\<close>: an exception leaves the
  function, with the globals as assigned so far.
\<close>

definition render_on_body :: "codec \<Rightarrow> json option \<Rightarrow> world \<Rightarrow> task_state \<times> world" where
  "render_on_body c body w =
     (case body of
        None \<Rightarrow> (Finished (Inl DecodeError), w)
      | Some json_resp \<Rightarrow>
          (case valid_resp json_resp of
             Inl e \<Rightarrow> (Finished (Inl e), w)
           | Inr r \<Rightarrow>
               (case py_get json_resp ''data'' (JObj []) of
                  Inl e \<Rightarrow> (Finished (Inl e), w)
                | Inr d \<Rightarrow>
                    (let w2 = w\<lparr>account_info := d\<rparr> in
                     (case py_get (account_info w2) ''uid'' JNull of
                        Inl e \<Rightarrow> (Finished (Inl e), w2)
                      | Inr uid \<Rightarrow>
                          (if truthy uid then
                             (case save_session_info c (account_info w2) (session_file w2) of
                                (Inl e, f) \<Rightarrow> (Finished (Inl e), w2\<lparr>session_file := f\<rparr>)
                              | (Inr u, f) \<Rightarrow> (Leaving, w2\<lparr>session_file := f\<rparr>))
                           else (Leaving, w2)))))))"

text \<open>\<open>return account_info\<close>: the global as it is when the blocks have been left.\<close>

definition render_return :: "world \<Rightarrow> (error + json) \<times> world" where
  "render_return w = (Inr (account_info w), w)"

text \<open>
  \<open>render_profile_info\<close> run alone, its stretches one after the other with no other
  task in between; \<open>ev\<close> is what the create-session request comes to.
\<close>

definition render_profile_info ::
  "codec \<Rightarrow> string \<Rightarrow> http_event \<Rightarrow> world \<Rightarrow> (error + json) \<times> world" where
  "render_profile_info c fresh ev w =
     (case render_start c fresh w of
        (Finished r, w1) \<Rightarrow> (r, w1)
      | (st1, w1) \<Rightarrow>
          (case render_on_response ev w1 of
             (Finished r, w2) \<Rightarrow> (r, w2)
           | (AwaitBody body, w2) \<Rightarrow>
               (case render_on_body c body w2 of
                  (Finished r, w3) \<Rightarrow> (r, w3)
                | (st3, w3) \<Rightarrow> render_return w3)
           | (st2, w2) \<Rightarrow> render_return w2))"

text \<open>
  Several tasks over the same globals. What makes a task go on: it is run for the
  first time, its request comes back, its body has been read, or the \<open>async with\<close>
  blocks have been left. An event that does not fit where the task stands changes
  nothing.
\<close>

datatype task_event = Begin string | Arrives http_event | BodyRead | BlocksLeft

fun task_step :: "codec \<Rightarrow> task_event \<Rightarrow> task_state \<Rightarrow> world \<Rightarrow> task_state \<times> world" where
  "task_step c (Begin fresh) NotStarted w = render_start c fresh w"
| "task_step c (Arrives ev) AwaitResponse w = render_on_response ev w"
| "task_step c BodyRead (AwaitBody body) w = render_on_body c body w"
| "task_step c BlocksLeft Leaving w =
     (case render_return w of (r, w1) \<Rightarrow> (Finished r, w1))"
| "task_step c e st w = (st, w)"

text \<open>
  A schedule is the list of the events in the order the event loop handles them, each
  with the number of its task; between two events no task runs.
\<close>

fun run_schedule ::
  "codec \<Rightarrow> (nat \<times> task_event) list \<Rightarrow> world \<Rightarrow> (nat \<Rightarrow> task_state) \<Rightarrow>
   world \<times> (nat \<Rightarrow> task_state)" where
  "run_schedule c [] w ts = (w, ts)"
| "run_schedule c ((i, e) # rest) w ts =
     (case task_step c e (ts i) w of (st, w1) \<Rightarrow> run_schedule c rest w1 (ts(i := st)))"

section \<open>The supervisor: main\<close>

text \<open>
  The objects \<open>main\<close> keeps in its lists and in its dict: proxy strings and task
  objects. A task is known by the order of its creation. No string equals a task.
\<close>

datatype pyval = PStr string | PTask nat

fun is_str :: "pyval \<Rightarrow> bool" where
  "is_str (PStr s) = True"
| "is_str (PTask n) = False"

fun is_task :: "pyval \<Rightarrow> bool" where
  "is_task (PStr s) = False"
| "is_task (PTask n) = True"

text \<open>\<open>xs.remove(x)\<close>: the first occurrence goes; \<open>ValueError\<close> when there is none.\<close>

fun py_remove :: "'a \<Rightarrow> 'a list \<Rightarrow> error + 'a list" where
  "py_remove x [] = Inl ValueError"
| "py_remove x (y # ys) =
     (if y = x then Inr ys
      else (case py_remove x ys of Inl e \<Rightarrow> Inl e | Inr zs \<Rightarrow> Inr (y # zs)))"

text \<open>\<open>xs.pop(0)\<close>: the first element and the rest; \<open>IndexError\<close> on the empty list.\<close>

fun py_pop0 :: "'a list \<Rightarrow> error + 'a \<times> 'a list" where
  "py_pop0 [] = Inl IndexError"
| "py_pop0 (x # xs) = Inr (x, xs)"

text \<open>A dict as the list of its items: \<open>d[k]\<close>, \<open>d[k] = v\<close>, \<open>d.pop(k)\<close>, \<open>k in d\<close>.\<close>

fun dict_getitem :: "('k \<times> 'v) list \<Rightarrow> 'k \<Rightarrow> error + 'v" where
  "dict_getitem [] k = Inl KeyError"
| "dict_getitem ((k', v) # d) k = (if k' = k then Inr v else dict_getitem d k)"

fun dict_setitem :: "('k \<times> 'v) list \<Rightarrow> 'k \<Rightarrow> 'v \<Rightarrow> ('k \<times> 'v) list" where
  "dict_setitem [] k v = [(k, v)]"
| "dict_setitem ((k', v') # d) k v =
     (if k' = k then (k', v) # d else (k', v') # dict_setitem d k v)"

fun dict_pop :: "('k \<times> 'v) list \<Rightarrow> 'k \<Rightarrow> error + ('k \<times> 'v) list" where
  "dict_pop [] k = Inl KeyError"
| "dict_pop ((k', v) # d) k =
     (if k' = k then Inr d
      else (case dict_pop d k of Inl e \<Rightarrow> Inl e | Inr d' \<Rightarrow> Inr ((k', v) # d')))"

fun dict_contains :: "('k \<times> 'v) list \<Rightarrow> 'k \<Rightarrow> bool" where
  "dict_contains [] k = False"
| "dict_contains ((k', v) # d) k = (k' = k \<or> dict_contains d k)"

text \<open>
  The local variables of \<open>main\<close>; \<open>next_task\<close> counts the tasks created so far, so
  that \<open>asyncio.create_task\<close> returns \<open>PTask (next_task s)\<close>.
\<close>

record main_state =
  all_proxies :: "pyval list"
  active_proxies :: "pyval list"
  tasks :: "(pyval \<times> pyval) list"
  next_task :: nat

text \<open>
  \<open>load_proxies\<close>: the lines of the proxy file (\<open>file.read().splitlines()\<close>), or
  \<open>SystemExit\<close> when the file cannot be read (\<open>None\<close>).
\<close>

definition load_proxies :: "string list option \<Rightarrow> error + pyval list" where
  "load_proxies proxy_file =
     (case proxy_file of None \<Rightarrow> Inl SystemExit | Some ls \<Rightarrow> Inr (map PStr ls))"

text \<open>
  The validation loop of \<open>main\<close>: \<open>net i\<close> is what the validation request for the
  candidate at position \<open>i\<close> comes to; \<open>active_proxies.append(proxy)\<close> on success.
\<close>

fun validate_loop :: "(nat \<Rightarrow> http_event) \<Rightarrow> nat \<Rightarrow> pyval list \<Rightarrow> pyval list \<Rightarrow> pyval list" where
  "validate_loop net i [] active = active"
| "validate_loop net i (proxy # rest) active =
     validate_loop net (Suc i) rest
       (if is_valid_proxy (net i) then active @ [proxy] else active)"

text \<open>\<open>for proxy in active_proxies: tasks[proxy] = asyncio.create_task(..)\<close>.\<close>

fun create_tasks :: "pyval list \<Rightarrow> (pyval \<times> pyval) list \<Rightarrow> nat \<Rightarrow> (pyval \<times> pyval) list \<times> nat" where
  "create_tasks [] d n = (d, n)"
| "create_tasks (proxy # rest) d n = create_tasks rest (dict_setitem d proxy (PTask n)) (Suc n)"

text \<open>
  \<open>main\<close> up to the polling loop. \<open>token\<close> is the stripped input line. Both
  \<open>exit()\<close> calls raise \<open>SystemExit\<close>.
\<close>

definition main_startup :: "string list option \<Rightarrow> string \<Rightarrow> (nat \<Rightarrow> http_event) \<Rightarrow> error + main_state" where
  "main_startup proxy_file token net =
     (case load_proxies proxy_file of
        Inl e \<Rightarrow> Inl e
      | Inr allp \<Rightarrow>
          (if token = [] then Inl SystemExit
           else (let active = validate_loop net 0 allp [] in
                 if active = [] then Inl SystemExit
                 else (case create_tasks active [] 0 of
                         (d, n) \<Rightarrow>
                           Inr \<lparr>all_proxies = allp, active_proxies = active, tasks = d,
                                next_task = n\<rparr>))))"

text \<open>\<open>task.result()\<close>: the value the task returned, or the exception it raised, raised again.\<close>

fun task_result :: "(nat \<Rightarrow> error + json) \<Rightarrow> pyval \<Rightarrow> error + json" where
  "task_result result (PTask n) = result n"
| "task_result result (PStr s) = Inl AttributeError"

text \<open>
  The block under \<open>if task.result() is None\<close>: remove \<open>proxy\<close> from the active list,
  pop the front of \<open>all_proxies\<close>, append it, create its task.
\<close>

definition replace_failed :: "pyval \<Rightarrow> main_state \<Rightarrow> error + main_state" where
  "replace_failed proxy s =
     (case py_remove proxy (active_proxies s) of
        Inl e \<Rightarrow> Inl e
      | Inr active \<Rightarrow>
          (case py_pop0 (all_proxies s) of
             Inl e \<Rightarrow> Inl e
           | Inr (new_proxy, rest) \<Rightarrow>
               Inr (s\<lparr>all_proxies := rest, active_proxies := active @ [new_proxy],
                      tasks := dict_setitem (tasks s) new_proxy (PTask (next_task s)),
                      next_task := Suc (next_task s)\<rparr>)))"

text \<open>
  The body of \<open>for task in done\<close>: \<open>proxy = tasks[task]\<close>, the test on
  \<open>task.result()\<close>, the replacement, \<open>tasks.pop(task)\<close>. Nothing is caught.
\<close>

definition handle_done :: "(nat \<Rightarrow> error + json) \<Rightarrow> pyval \<Rightarrow> main_state \<Rightarrow> error + main_state" where
  "handle_done result task s =
     (case dict_getitem (tasks s) task of
        Inl e \<Rightarrow> Inl e
      | Inr proxy \<Rightarrow>
          (case task_result result task of
             Inl e \<Rightarrow> Inl e
           | Inr r \<Rightarrow>
               (case (if r = JNull then replace_failed proxy s else Inr s) of
                  Inl e \<Rightarrow> Inl e
                | Inr s1 \<Rightarrow>
                    (case dict_pop (tasks s1) task of
                       Inl e \<Rightarrow> Inl e
                     | Inr d \<Rightarrow> Inr (s1\<lparr>tasks := d\<rparr>)))))"

fun for_done :: "(nat \<Rightarrow> error + json) \<Rightarrow> pyval list \<Rightarrow> main_state \<Rightarrow> error + main_state" where
  "for_done result [] s = Inr s"
| "for_done result (task # rest) s =
     (case handle_done result task s of Inl e \<Rightarrow> Inl e | Inr s1 \<Rightarrow> for_done result rest s1)"

text \<open>\<open>for proxy in active_proxies: if proxy not in tasks: tasks[proxy] = ..\<close>.\<close>

fun rearm :: "pyval list \<Rightarrow> (pyval \<times> pyval) list \<Rightarrow> nat \<Rightarrow> (pyval \<times> pyval) list \<times> nat" where
  "rearm [] d n = (d, n)"
| "rearm (proxy # rest) d n =
     (if dict_contains d proxy then rearm rest d n
      else rearm rest (dict_setitem d proxy (PTask n)) (Suc n))"

text \<open>
  One pass of the \<open>while True\<close> body. \<open>asyncio.wait\<close> raises \<open>ValueError\<close> on an
  empty set of tasks; otherwise it returns the tasks that are finished (\<open>finished\<close>,
  in the order the loop visits them). \<open>result\<close> gives each task's outcome. The
  sleep at the end changes nothing.
\<close>

definition main_cycle :: "(nat \<Rightarrow> error + json) \<Rightarrow> pyval list \<Rightarrow> main_state \<Rightarrow> error + main_state" where
  "main_cycle result finished s =
     (if tasks s = [] then Inl ValueError
      else (case for_done result finished s of
              Inl e \<Rightarrow> Inl e
            | Inr s1 \<Rightarrow>
                (case rearm (active_proxies s1) (tasks s1) (next_task s1) of
                   (d, n) \<Rightarrow> Inr (s1\<lparr>tasks := d, next_task := n\<rparr>))))"

text \<open>
  The polling loop, observed for a number of passes: \<open>finished i\<close> is what
  \<open>asyncio.wait\<close> returns in pass \<open>i\<close>. \<open>Inr\<close> is the state of a loop that is
  still running after these passes, \<open>Inl\<close> the exception that ended it.
\<close>

fun polling_loop ::
  "nat \<Rightarrow> (nat \<Rightarrow> error + json) \<Rightarrow> (nat \<Rightarrow> pyval list) \<Rightarrow> nat \<Rightarrow> main_state \<Rightarrow> error + main_state" where
  "polling_loop 0 result finished i s = Inr s"
| "polling_loop (Suc n) result finished i s =
     (case main_cycle result (finished i) s of
        Inl e \<Rightarrow> Inl e
      | Inr s1 \<Rightarrow> polling_loop n result finished (Suc i) s1)"

text \<open>\<open>main\<close>: the startup, then the polling loop.\<close>

definition main ::
  "string list option \<Rightarrow> string \<Rightarrow> (nat \<Rightarrow> http_event) \<Rightarrow> nat \<Rightarrow> (nat \<Rightarrow> error + json) \<Rightarrow>
   (nat \<Rightarrow> pyval list) \<Rightarrow> error + main_state" where
  "main proxy_file token net passes result finished =
     (case main_startup proxy_file token net of
        Inl e \<Rightarrow> Inl e
      | Inr s \<Rightarrow> polling_loop passes result finished 0 s)"

section \<open>What the specification says, and sample inputs\<close>

text \<open>
  The status marker of a response: the value under \<open>"code"\<close> of a response that is a
  JSON object. A record is a dict. A marker is a number when it is an integer, a bool
  or a float, and negative when it is an integer or a float below zero.
\<close>

fun status_marker :: "json \<Rightarrow> json option" where
  "status_marker (JObj kvs) = map_of kvs ''code''"
| "status_marker JNull = None"
| "status_marker (JBool b) = None"
| "status_marker (JInt n) = None"
| "status_marker (JFloat x) = None"
| "status_marker (JStr s) = None"
| "status_marker (JList xs) = None"

fun is_dict :: "json \<Rightarrow> bool" where
  "is_dict (JObj kvs) = True"
| "is_dict JNull = False"
| "is_dict (JBool b) = False"
| "is_dict (JInt n) = False"
| "is_dict (JFloat x) = False"
| "is_dict (JStr s) = False"
| "is_dict (JList xs) = False"

fun is_negative :: "json \<Rightarrow> bool" where
  "is_negative (JInt n) = (n < 0)"
| "is_negative (JFloat x) = (x < 0)"
| "is_negative (JBool b) = False"
| "is_negative JNull = False"
| "is_negative (JStr s) = False"
| "is_negative (JList xs) = False"
| "is_negative (JObj kvs) = False"

fun is_number :: "json \<Rightarrow> bool" where
  "is_number (JInt n) = True"
| "is_number (JFloat x) = True"
| "is_number (JBool b) = True"
| "is_number JNull = False"
| "is_number (JStr s) = False"
| "is_number (JList xs) = False"
| "is_number (JObj kvs) = False"

text \<open>
  The specification's invalid response: the response is absent, lacks the status
  marker, or the marker is negative.
\<close>

definition invalid_response_spec :: "json \<Rightarrow> bool" where
  "invalid_response_spec resp =
     (resp = JNull \<or>
      (case status_marker resp of None \<Rightarrow> True | Some c \<Rightarrow> is_negative c))"

text \<open>
  The bodies on which evaluating the tests of \<open>valid_resp\<close> raises \<open>TypeError\<close>: an
  object whose status marker is not a number; a list that has the string \<open>"code"\<close> as
  an element; a string that contains \<open>code\<close>; \<open>True\<close>; a number that is not zero.
\<close>

fun type_error_body :: "json \<Rightarrow> bool" where
  "type_error_body (JObj kvs) =
     (case map_of kvs ''code'' of None \<Rightarrow> False | Some c \<Rightarrow> \<not> is_number c)"
| "type_error_body (JList xs) = List.member xs (JStr ''code'')"
| "type_error_body (JStr s) = str_contains s ''code''"
| "type_error_body (JBool b) = b"
| "type_error_body (JInt n) = (n \<noteq> 0)"
| "type_error_body (JFloat x) = (x \<noteq> 0)"
| "type_error_body JNull = False"

text \<open>
  The specification's heartbeat outcomes. A heartbeat is accepted when the HTTP layer
  reports success (status 200) and the status marker of the response equals 0.
  \<open>sendHeartbeat_spec\<close> is the specification's classification: \<open>Success\<close> for an
  accepted heartbeat, \<open>ProxyUnreachable\<close> on a network failure, \<open>Rejected\<close> for any
  other response.
\<close>

datatype heartbeat_outcome = Success | Rejected | ProxyUnreachable

definition heartbeat_ok :: "http_event \<Rightarrow> bool" where
  "heartbeat_ok ev =
     (case ev of
        NetFailure \<Rightarrow> False
      | HttpResponse status body \<Rightarrow>
          status = 200 \<and>
          (case body of
             None \<Rightarrow> False
           | Some resp \<Rightarrow> (case status_marker resp of None \<Rightarrow> False | Some c \<Rightarrow> py_eq0 c)))"

definition sendHeartbeat_spec :: "http_event \<Rightarrow> heartbeat_outcome" where
  "sendHeartbeat_spec ev =
     (case ev of
        NetFailure \<Rightarrow> ProxyUnreachable
      | HttpResponse status body \<Rightarrow> (if heartbeat_ok ev then Success else Rejected))"

text \<open>
  Sample inputs. \<open>sample_codec\<close> is the json module on the values and texts of the
  examples: \<open>{"uid": "a1"}\<close>, \<open>null\<close>, \<open>{}\<close> and \<open>[1]\<close>; it reads no other
  text. Session files: none; one that is not JSON; one that holds the list \<open>[1]\<close>; one
  that can be neither read nor written.
\<close>

definition sample_record :: json where
  "sample_record = JObj [(''uid'', JStr ''a1'')]"

definition sample_text :: string where
  "sample_text = ''{\"uid\": \"a1\"}''"

definition sample_table :: "(json \<times> string) list" where
  "sample_table =
     [(sample_record, sample_text), (JNull, ''null''), (JObj [], ''{}''),
      (JList [JInt 1], ''[1]'')]"

definition sample_codec :: codec where
  "sample_codec =
     \<lparr>dumps = (\<lambda>j. case map_of sample_table j of None \<Rightarrow> [] | Some t \<Rightarrow> t),
      loads = (\<lambda>t. map_of (map (\<lambda>(j, t). (t, j)) sample_table) t)\<rparr>"

definition no_file :: file_state where
  "no_file = \<lparr>present = False, readable = False, writable = True, contents = []\<rparr>"

definition garbled_file :: file_state where
  "garbled_file = \<lparr>present = True, readable = True, writable = True, contents = ''{oops''\<rparr>"

definition list_file :: file_state where
  "list_file = \<lparr>present = True, readable = True, writable = True, contents = ''[1]''\<rparr>"

definition locked_file :: file_state where
  "locked_file = \<lparr>present = True, readable = False, writable = False, contents = []\<rparr>"

text \<open>
  Response bodies: \<open>{"code": 0, "data": {"uid": "a1"}}\<close>, \<open>{"code": 0, "data": null}\<close>,
  \<open>{"code": 0}\<close>, \<open>{"code": -1}\<close>, \<open>{"code": "x"}\<close>, \<open>{"code": -0.5}\<close> and
  \<open>{"code": 0.0}\<close>.
\<close>

definition session_created :: json where
  "session_created = JObj [(''code'', JInt 0), (''data'', sample_record)]"

definition null_data :: json where
  "null_data = JObj [(''code'', JInt 0), (''data'', JNull)]"

definition ping_accepted :: json where
  "ping_accepted = JObj [(''code'', JInt 0)]"

definition ping_rejected :: json where
  "ping_rejected = JObj [(''code'', JInt (- 1))]"

definition text_code :: json where
  "text_code = JObj [(''code'', JStr ''x'')]"

definition negative_float_code :: json where
  "negative_float_code = JObj [(''code'', JFloat (- (1 / 2)))]"

definition zero_float_code :: json where
  "zero_float_code = JObj [(''code'', JFloat 0)]"

text \<open>
  An event that brings a task a create-session response of status 200 that passes
  validation and whose \<open>"data"\<close> is \<open>null\<close>.
\<close>

fun carries_null_data :: "task_event \<Rightarrow> bool" where
  "carries_null_data (Arrives (HttpResponse status (Some resp))) =
     (status = 200 \<and> valid_resp resp = Inr resp \<and> py_get resp ''data'' (JObj []) = Inr JNull)"
| "carries_null_data e = False"

text \<open>No event of a schedule brings such a response.\<close>

fun no_null_data :: "(nat \<times> task_event) list \<Rightarrow> bool" where
  "no_null_data [] = True"
| "no_null_data ((i, e) # rest) = (\<not> carries_null_data e \<and> no_null_data rest)"

text \<open>
  Two tasks created together, as \<open>main\<close> creates them: both run up to their request;
  task 0 is answered \<open>{"code": 0, "data": null}\<close>; then task 1 is answered with
  status 500 and returns. And two tasks of which the first creates the session and the
  second is answered with status 500.
\<close>

definition null_then_500 :: "(nat \<times> task_event) list" where
  "null_then_500 =
     [(0, Begin ''dev-1''), (1, Begin ''dev-2''),
      (0, Arrives (HttpResponse 200 (Some null_data))), (0, BodyRead),
      (1, Arrives (HttpResponse 500 None)), (1, BlocksLeft)]"

definition created_then_500 :: "(nat \<times> task_event) list" where
  "created_then_500 =
     [(0, Begin ''dev-1''), (1, Begin ''dev-2''),
      (0, Arrives (HttpResponse 200 (Some session_created))), (0, BodyRead),
      (1, Arrives (HttpResponse 500 None)), (1, BlocksLeft), (0, BlocksLeft)]"

definition not_started :: "nat \<Rightarrow> task_state" where
  "not_started i = NotStarted"

text \<open>
  The candidates that validate, in input order: \<open>net i\<close> is what the validation
  request for the candidate at position \<open>i\<close> comes to.
\<close>

definition validated :: "(nat \<Rightarrow> http_event) \<Rightarrow> string list \<Rightarrow> string list" where
  "validated net candidates =
     map snd (filter (\<lambda>(i, proxy). is_valid_proxy (net i)) (enumerate 0 candidates))"

text \<open>A proxy that stands both in the active list and in \<open>all_proxies\<close>, the backlog.\<close>

definition in_both_pools :: "pyval \<Rightarrow> main_state \<Rightarrow> bool" where
  "in_both_pools proxy s =
     (List.member (active_proxies s) proxy \<and> List.member (all_proxies s) proxy)"

text \<open>Every key of the task dict is a proxy string.\<close>

fun keys_are_proxies :: "(pyval \<times> pyval) list \<Rightarrow> bool" where
  "keys_are_proxies [] = True"
| "keys_are_proxies ((k, v) # d) = (is_str k \<and> keys_are_proxies d)"

text \<open>
  Sample environments: every validation request answered with status 200; the one at
  position 1 failing; every task returning \<open>None\<close>; every task raising; and
  \<open>asyncio.wait\<close> returning the first task created.
\<close>

definition every_proxy_valid :: "nat \<Rightarrow> http_event" where
  "every_proxy_valid i = HttpResponse 200 None"

definition second_invalid :: "nat \<Rightarrow> http_event" where
  "second_invalid i = (if i = 1 then NetFailure else HttpResponse 200 None)"

definition every_task_fails :: "nat \<Rightarrow> error + json" where
  "every_task_fails n = Inr JNull"

definition every_task_raises :: "nat \<Rightarrow> error + json" where
  "every_task_raises n = Inl ValueError"

definition first_task_finished :: "nat \<Rightarrow> pyval list" where
  "first_task_finished i = [PTask 0]"

section \<open>Response validation: lemmas\<close>

lemma valid_resp_obj:
  "valid_resp (JObj kvs) =
     (case map_of kvs ''code'' of
        None \<Rightarrow> Inl ValueError
      | Some c \<Rightarrow>
          (case py_lt0 c of
             Inl e \<Rightarrow> Inl e
           | Inr neg \<Rightarrow> if neg then Inl ValueError else Inr (JObj kvs)))"
  by (cases kvs) (auto simp: valid_resp_def split: option.splits sum.splits)

lemma valid_resp_Inr: "valid_resp resp = Inr r \<Longrightarrow> r = resp \<and> is_dict resp"
  by (cases resp) (auto simp: valid_resp_def split: if_splits sum.splits option.splits)

lemma valid_resp_Inl_marker:
  "valid_resp resp = Inl e \<Longrightarrow> status_marker resp = Some c \<Longrightarrow> \<not> py_eq0 c"
  by (cases resp; cases c) (auto simp: valid_resp_obj split: if_splits)

lemma valid_resp_Inr_marker:
  "valid_resp resp = Inr r \<Longrightarrow>
   \<exists>c. py_getitem resp ''code'' = Inr c \<and> status_marker resp = Some c"
  by (cases resp) (auto simp: valid_resp_def split: if_splits sum.splits option.splits)

text \<open>
  C10, as stated, fails: the response \<open>{"code": "x"}\<close> is present, has the status
  marker and the marker is not negative, yet validation does not pass; comparing the
  string with 0 raises \<open>TypeError\<close>.
\<close>

theorem valid_resp_text_code_counterexample:
  "\<not> invalid_response_spec text_code \<and> valid_resp text_code = Inl TypeError"
  by (simp add: invalid_response_spec_def text_code_def valid_resp_def)

text \<open>
  C10, amended: \<open>valid_resp\<close> raises the invalid-response error exactly when the
  response is absent, lacks the status marker or the marker is negative, and returns
  the response itself exactly when the response is a JSON object whose marker is a
  number (an integer, a bool or a float) that is not negative, except on the bodies
  where evaluating its tests raises \<open>TypeError\<close>: an object whose marker is not a
  number, a list that has the string \<open>"code"\<close> as an element, a string that contains
  \<open>code\<close>, \<open>True\<close> and a number that is not zero.
\<close>

theorem valid_resp_classification:
  "valid_resp resp =
     (if type_error_body resp then Inl TypeError
      else if invalid_response_spec resp then Inl ValueError
      else Inr resp)
   \<and> (valid_resp resp = Inr resp) =
       (\<exists>c. status_marker resp = Some c \<and> is_number c \<and> \<not> is_negative c)"
proof (cases resp)
  case (JObj kvs)
  show ?thesis
  proof (cases "map_of kvs ''code''")
    case None
    then show ?thesis by (simp add: JObj valid_resp_obj invalid_response_spec_def)
  next
    case (Some c)
    then show ?thesis
      by (cases c) (simp_all add: JObj valid_resp_obj invalid_response_spec_def)
  qed
next
  case (JList xs)
  then show ?thesis
    by (cases xs) (simp_all add: valid_resp_def invalid_response_spec_def)
next
  case (JStr s)
  then show ?thesis
    by (cases s) (simp_all add: valid_resp_def invalid_response_spec_def)
qed (simp_all add: valid_resp_def invalid_response_spec_def)

theorem valid_resp_classification_witness:
  "valid_resp ping_rejected = Inl ValueError
   \<and> valid_resp negative_float_code = Inl ValueError
   \<and> valid_resp ping_accepted = Inr ping_accepted
   \<and> valid_resp zero_float_code = Inr zero_float_code
   \<and> valid_resp JNull = Inl ValueError
   \<and> valid_resp (JList [JInt 1]) = Inl ValueError
   \<and> valid_resp (JList [JStr ''code'']) = Inl TypeError
   \<and> valid_resp text_code = Inl TypeError"
  using valid_resp_classification [of ping_rejected]
    valid_resp_classification [of negative_float_code]
    valid_resp_classification [of ping_accepted]
    valid_resp_classification [of zero_float_code]
    valid_resp_classification [of JNull]
    valid_resp_classification [of "JList [JInt 1]"]
    valid_resp_classification [of "JList [JStr ''code'']"]
    valid_resp_classification [of text_code]
  by (simp add: invalid_response_spec_def ping_rejected_def negative_float_code_def
      ping_accepted_def zero_float_code_def text_code_def)

section \<open>Heartbeat\<close>

lemma ping_body_response:
  assumes "is_dict (account_info w)"
  shows "(case ping_body (HttpResponse 200 (Some resp)) w of
            Inl e \<Rightarrow> (False, w) | Inr r \<Rightarrow> r) =
     (if (case status_marker resp of None \<Rightarrow> False | Some c \<Rightarrow> py_eq0 c)
      then (True, w\<lparr>status_connect := CONNECTED\<rparr>) else (False, w))"
proof -
  from assms obtain kvs where a: "account_info w = JObj kvs"
    by (cases "account_info w") auto
  show ?thesis
  proof (cases "valid_resp resp")
    case (Inl e)
    then show ?thesis
      using valid_resp_Inl_marker [OF Inl]
      by (auto simp: ping_body_def a split: option.splits)
  next
    case (Inr r)
    from valid_resp_Inr_marker [OF Inr] obtain c
      where "py_getitem resp ''code'' = Inr c" "status_marker resp = Some c" by blast
    then show ?thesis by (simp add: ping_body_def a Inr)
  qed
qed

text \<open>
  C4, as stated, fails: for the response \<open>{"code": -1}\<close> and for a network failure the
  specification's outcomes differ (\<open>Rejected\<close>, \<open>ProxyUnreachable\<close>), while
  \<open>handle_ping\<close> returns the same value for both.
\<close>

theorem handle_ping_same_failure_counterexample:
  "sendHeartbeat_spec (HttpResponse 200 (Some ping_rejected)) = Rejected
   \<and> sendHeartbeat_spec NetFailure = ProxyUnreachable
   \<and> fst (handle_ping (HttpResponse 200 (Some ping_rejected)) (initial_world no_file)) =
      fst (handle_ping NetFailure (initial_world no_file))"
  by (simp add: handle_ping_def ping_body_def initial_world_def sendHeartbeat_spec_def
      heartbeat_ok_def ping_rejected_def valid_resp_def)

text \<open>
  C4, amended: \<open>handle_ping\<close> returns \<open>True\<close> exactly when the shared account
  information is a dict, the HTTP status is 200 and the status marker of the response
  equals 0, and then the connection state becomes \<open>CONNECTED\<close>; in every other case
  (marker not 0, other status, undecodable or invalid body, network failure) it returns
  \<open>False\<close> and leaves the globals as they were.
\<close>

theorem handle_ping_outcome:
  "handle_ping ev w =
     (if is_dict (account_info w) \<and> heartbeat_ok ev
      then (True, w\<lparr>status_connect := CONNECTED\<rparr>)
      else (False, w))"
proof (cases "is_dict (account_info w)")
  case False
  then have "ping_body ev w = Inl AttributeError"
    by (cases "account_info w") (simp_all add: ping_body_def)
  with False show ?thesis by (simp add: handle_ping_def)
next
  case True
  then obtain kvs where a: "account_info w = JObj kvs"
    by (cases "account_info w") auto
  show ?thesis
  proof (cases ev)
    case NetFailure
    then show ?thesis by (simp add: handle_ping_def ping_body_def heartbeat_ok_def a)
  next
    case (HttpResponse status body)
    show ?thesis
    proof (cases "status = 200")
      case False
      then show ?thesis
        by (simp add: handle_ping_def ping_body_def heartbeat_ok_def a HttpResponse)
    next
      case s: True
      show ?thesis
      proof (cases body)
        case None
        then show ?thesis
          by (simp add: handle_ping_def ping_body_def heartbeat_ok_def a HttpResponse)
      next
        case (Some resp)
        show ?thesis
          using ping_body_response [OF True, of resp]
          by (simp add: handle_ping_def heartbeat_ok_def HttpResponse Some s True)
      qed
    qed
  qed
qed

theorem handle_ping_outcome_witness:
  "handle_ping (HttpResponse 200 (Some ping_accepted)) (initial_world no_file) =
     (True, (initial_world no_file)\<lparr>status_connect := CONNECTED\<rparr>)
   \<and> handle_ping (HttpResponse 200 (Some ping_rejected)) (initial_world no_file) =
     (False, initial_world no_file)
   \<and> handle_ping NetFailure (initial_world no_file) = (False, initial_world no_file)"
  using handle_ping_outcome [of "HttpResponse 200 (Some ping_accepted)" "initial_world no_file"]
    handle_ping_outcome [of "HttpResponse 200 (Some ping_rejected)" "initial_world no_file"]
    handle_ping_outcome [of NetFailure "initial_world no_file"]
  by (simp add: heartbeat_ok_def ping_accepted_def ping_rejected_def initial_world_def)

section \<open>The session store\<close>

lemmas sample_defs = sample_record_def sample_text_def sample_table_def sample_codec_def
  no_file_def garbled_file_def list_file_def locked_file_def session_created_def
  null_data_def ping_accepted_def ping_rejected_def text_code_def negative_float_code_def
  zero_float_code_def

lemmas render_defs = render_profile_info_def render_start_def render_on_response_def
  render_on_body_def render_return_def

lemma py_get_Inr_dict: "py_get d k x = Inr v \<Longrightarrow> is_dict d"
  by (cases d) auto

lemma truthy_not_None: "truthy v \<Longrightarrow> v \<noteq> JNull"
  by (cases v) auto

lemma load_unreadable_or_malformed:
  assumes "present f" and "\<not> readable f \<or> loads c (contents f) = None"
  shows "load_session_info c f = JNull"
  using assms by (auto simp: load_session_info_def read_session_def)

lemma load_absent: "\<not> present f \<Longrightarrow> load_session_info c f = JNull"
  by (simp add: load_session_info_def)

text \<open>
  C8: a record that is a dict and that the json module reads back from its own dump is
  returned by \<open>load_session_info\<close> after \<open>save_session_info\<close>, whatever the file
  held before, when the file can be written and, if it exists already, read.
\<close>

theorem session_store_round_trip:
  assumes "is_dict r" and "loads c (dumps c r) = Some r"
    and "writable f" and "present f \<longrightarrow> readable f"
  shows "fst (save_session_info c r f) = Inr () \<and>
         load_session_info c (snd (save_session_info c r f)) = r"
proof -
  from assms(1) obtain kvs where r: "r = JObj kvs" by (cases r) auto
  have s: "save_session_info c r f = (Inr (), write_file (dumps c r) f)"
    using assms(3) by (simp add: save_session_info_def r)
  have "load_session_info c (write_file (dumps c r) f) = r"
    using assms(2,4) by (simp add: load_session_info_def read_session_def write_file_def)
  with s show ?thesis by simp
qed

theorem session_store_round_trip_witness:
  "is_dict sample_record
   \<and> loads sample_codec (dumps sample_codec sample_record) = Some sample_record
   \<and> writable garbled_file \<and> present garbled_file \<and> readable garbled_file
   \<and> fst (save_session_info sample_codec sample_record garbled_file) = Inr ()
   \<and> load_session_info sample_codec
       (snd (save_session_info sample_codec sample_record garbled_file)) = sample_record"
proof -
  have a: "is_dict sample_record" by (simp add: sample_record_def)
  have b: "loads sample_codec (dumps sample_codec sample_record) = Some sample_record"
    by (simp add: sample_defs)
  have c: "writable garbled_file" by (simp add: garbled_file_def)
  have d: "present garbled_file \<longrightarrow> readable garbled_file" by (simp add: garbled_file_def)
  have e: "present garbled_file \<and> readable garbled_file" by (simp add: garbled_file_def)
  from session_store_round_trip [OF a b c d] a b c e show ?thesis by simp
qed

section \<open>The task body\<close>

text \<open>
  \<open>render_profile_info\<close> run alone when the value loaded is \<open>None\<close> or another
  false value: the \<open>else\<close> branch.
\<close>

lemma render_no_session:
  assumes "\<not> truthy (load_session_info c (session_file w))"
  shows "render_profile_info c fresh ev w =
    (case ev of
       NetFailure \<Rightarrow> (Inl ClientError, w\<lparr>browser_id := JStr fresh\<rparr>)
     | HttpResponse status body \<Rightarrow>
        (if status \<noteq> 200 then (Inr (account_info w), w\<lparr>browser_id := JStr fresh\<rparr>)
         else (case body of
            None \<Rightarrow> (Inl DecodeError, w\<lparr>browser_id := JStr fresh\<rparr>)
          | Some resp \<Rightarrow>
            (case valid_resp resp of
               Inl e \<Rightarrow> (Inl e, w\<lparr>browser_id := JStr fresh\<rparr>)
             | Inr r \<Rightarrow>
               (case py_get resp ''data'' (JObj []) of
                  Inl e \<Rightarrow> (Inl e, w\<lparr>browser_id := JStr fresh\<rparr>)
                | Inr d \<Rightarrow>
                   (case py_get d ''uid'' JNull of
                      Inl e \<Rightarrow> (Inl e, w\<lparr>browser_id := JStr fresh, account_info := d\<rparr>)
                    | Inr uid \<Rightarrow>
                       (if \<not> truthy uid
                        then (Inr d, w\<lparr>browser_id := JStr fresh, account_info := d\<rparr>)
                        else if \<not> writable (session_file w)
                        then (Inl OSError, w\<lparr>browser_id := JStr fresh, account_info := d\<rparr>)
                        else (Inr d, w\<lparr>browser_id := JStr fresh, account_info := d,
                               session_file := write_file (dumps c d) (session_file w)\<rparr>))))))))"
  using assms
  by (auto simp: render_defs Let_def save_session_info_def
      split: sum.splits http_event.splits option.splits dest: py_get_Inr_dict)

lemma render_truthy_not_dict:
  assumes "truthy (load_session_info c (session_file w))"
    and "\<not> is_dict (load_session_info c (session_file w))"
  shows "render_profile_info c fresh ev w =
    (Inl AttributeError, w\<lparr>account_info := load_session_info c (session_file w)\<rparr>)"
  using assms
  by (cases "load_session_info c (session_file w)")
    (simp_all add: render_profile_info_def render_start_def Let_def)

text \<open>
  C9, as stated, fails. A session file that holds the JSON list \<open>[1]\<close> is not a
  session record, yet \<open>load_session_info\<close> returns the list and the task raises
  \<open>AttributeError\<close>. A session file that can be neither read nor written loads as
  \<open>None\<close>, but the task then ends with \<open>OSError\<close> at the save, where the first
  run with no file returns the record.
\<close>

theorem session_file_not_as_first_run_counterexample:
  "load_session_info sample_codec list_file = JList [JInt 1]
   \<and> fst (render_profile_info sample_codec ''dev-1'' (HttpResponse 200 (Some session_created))
        (initial_world list_file)) = Inl AttributeError
   \<and> load_session_info sample_codec locked_file = JNull
   \<and> fst (render_profile_info sample_codec ''dev-1'' (HttpResponse 200 (Some session_created))
        (initial_world locked_file)) = Inl OSError
   \<and> fst (render_profile_info sample_codec ''dev-1'' (HttpResponse 200 (Some session_created))
        (initial_world no_file)) = Inr sample_record"
  by (simp add: render_defs load_session_info_def read_session_def save_session_info_def
      write_file_def initial_world_def valid_resp_def sample_defs Let_def)

text \<open>
  C9, amended. \<open>f\<close> is a session file that exists, \<open>g\<close> the session file of a first
  run: none, and one can be created. A file that cannot be read, or whose text is not
  JSON, loads as \<open>None\<close>, nothing is raised. Whenever the value loaded is \<open>None\<close>
  or another false value, the task starts as on the first run (it generates an
  identifier and waits for the create-session response) and, run alone, ends with the
  same globals; if \<open>f\<close> can be written, also with the same outcome and the same text
  saved, if any; if \<open>f\<close> cannot be written, the two runs differ only where the first
  run saves: there the run on \<open>f\<close> ends with \<open>OSError\<close>. A file that holds a JSON
  value that counts as true is not taken as absent: a value that is not a dict (a
  non-empty list, say) is loaded and the task raises \<open>AttributeError\<close>; a non-empty
  dict is adopted as the session record, whatever its entries.
\<close>

theorem unusable_session_file:
  assumes "present f" and "\<not> present g" and "writable g"
  shows
    "let bad = render_profile_info c fresh ev (w\<lparr>session_file := f\<rparr>);
         first = render_profile_info c fresh ev (w\<lparr>session_file := g\<rparr>)
     in (\<not> readable f \<or> loads c (contents f) = None \<longrightarrow> load_session_info c f = JNull)
      \<and> (\<not> truthy (load_session_info c f) \<longrightarrow>
            account_info (snd bad) = account_info (snd first)
          \<and> browser_id (snd bad) = browser_id (snd first)
          \<and> status_connect (snd bad) = status_connect (snd first)
          \<and> (writable f \<longrightarrow>
                fst bad = fst first
              \<and> (session_file (snd bad) = f \<and> session_file (snd first) = g
                 \<or> (\<exists>t. session_file (snd bad) = write_file t f
                        \<and> session_file (snd first) = write_file t g)))
          \<and> (\<not> writable f \<longrightarrow>
                session_file (snd bad) = f
              \<and> (fst bad = fst first \<and> session_file (snd first) = g
                 \<or> fst bad = Inl OSError
                   \<and> (\<exists>d. fst first = Inr d
                          \<and> session_file (snd first) = write_file (dumps c d) g))))
      \<and> (\<not> truthy (load_session_info c f) \<longrightarrow>
            render_start c fresh (w\<lparr>session_file := f\<rparr>) =
              (AwaitResponse, w\<lparr>session_file := f, browser_id := JStr fresh\<rparr>)
          \<and> render_start c fresh (w\<lparr>session_file := g\<rparr>) =
              (AwaitResponse, w\<lparr>session_file := g, browser_id := JStr fresh\<rparr>))
      \<and> (truthy (load_session_info c f) \<and> \<not> is_dict (load_session_info c f) \<longrightarrow>
            fst bad = Inl AttributeError
          \<and> account_info (snd bad) = load_session_info c f)
      \<and> (truthy (load_session_info c f) \<and> is_dict (load_session_info c f) \<longrightarrow>
            fst bad = Inr (load_session_info c f)
          \<and> account_info (snd bad) = load_session_info c f
          \<and> session_file (snd bad) = f)"
proof -
  have d: "truthy (load_session_info c f) \<and> is_dict (load_session_info c f) \<longrightarrow>
      fst (render_profile_info c fresh ev (w\<lparr>session_file := f\<rparr>)) =
        Inr (load_session_info c f)
    \<and> account_info (snd (render_profile_info c fresh ev (w\<lparr>session_file := f\<rparr>))) =
        load_session_info c f
    \<and> session_file (snd (render_profile_info c fresh ev (w\<lparr>session_file := f\<rparr>))) = f"
    by (cases "load_session_info c f")
      (simp_all add: render_profile_info_def render_start_def Let_def)
  have s: "\<not> truthy (load_session_info c f) \<longrightarrow>
            render_start c fresh (w\<lparr>session_file := f\<rparr>) =
              (AwaitResponse, w\<lparr>session_file := f, browser_id := JStr fresh\<rparr>)
          \<and> render_start c fresh (w\<lparr>session_file := g\<rparr>) =
              (AwaitResponse, w\<lparr>session_file := g, browser_id := JStr fresh\<rparr>)"
    using assms(2) by (simp add: render_start_def load_absent)
  have first: "\<not> truthy (load_session_info c (session_file (w\<lparr>session_file := g\<rparr>)))"
    using assms(2) by (simp add: load_absent)
  have a: "\<not> readable f \<or> loads c (contents f) = None \<longrightarrow> load_session_info c f = JNull"
    using load_unreadable_or_malformed [OF assms(1)] by blast
  have b: "truthy (load_session_info c f) \<and> \<not> is_dict (load_session_info c f) \<longrightarrow>
      fst (render_profile_info c fresh ev (w\<lparr>session_file := f\<rparr>)) = Inl AttributeError
    \<and> account_info (snd (render_profile_info c fresh ev (w\<lparr>session_file := f\<rparr>))) =
        load_session_info c f"
    using render_truthy_not_dict [of c "w\<lparr>session_file := f\<rparr>" fresh ev] by simp
  have c: "\<not> truthy (load_session_info c f) \<longrightarrow>
      (let bad = render_profile_info c fresh ev (w\<lparr>session_file := f\<rparr>);
           first = render_profile_info c fresh ev (w\<lparr>session_file := g\<rparr>)
       in account_info (snd bad) = account_info (snd first)
          \<and> browser_id (snd bad) = browser_id (snd first)
          \<and> status_connect (snd bad) = status_connect (snd first)
          \<and> (writable f \<longrightarrow>
                fst bad = fst first
              \<and> (session_file (snd bad) = f \<and> session_file (snd first) = g
                 \<or> (\<exists>t. session_file (snd bad) = write_file t f
                        \<and> session_file (snd first) = write_file t g)))
          \<and> (\<not> writable f \<longrightarrow>
                session_file (snd bad) = f
              \<and> (fst bad = fst first \<and> session_file (snd first) = g
                 \<or> fst bad = Inl OSError
                   \<and> (\<exists>d. fst first = Inr d
                          \<and> session_file (snd first) = write_file (dumps c d) g))))"
  proof
    assume "\<not> truthy (load_session_info c f)"
    then have bad: "\<not> truthy (load_session_info c (session_file (w\<lparr>session_file := f\<rparr>)))"
      by simp
    show "let bad = render_profile_info c fresh ev (w\<lparr>session_file := f\<rparr>);
           first = render_profile_info c fresh ev (w\<lparr>session_file := g\<rparr>)
       in account_info (snd bad) = account_info (snd first)
          \<and> browser_id (snd bad) = browser_id (snd first)
          \<and> status_connect (snd bad) = status_connect (snd first)
          \<and> (writable f \<longrightarrow>
                fst bad = fst first
              \<and> (session_file (snd bad) = f \<and> session_file (snd first) = g
                 \<or> (\<exists>t. session_file (snd bad) = write_file t f
                        \<and> session_file (snd first) = write_file t g)))
          \<and> (\<not> writable f \<longrightarrow>
                session_file (snd bad) = f
              \<and> (fst bad = fst first \<and> session_file (snd first) = g
                 \<or> fst bad = Inl OSError
                   \<and> (\<exists>d. fst first = Inr d
                          \<and> session_file (snd first) = write_file (dumps c d) g)))"
      unfolding render_no_session [OF bad] render_no_session [OF first] Let_def
      using assms(3)
      by (auto split: http_event.splits option.splits sum.splits)
  qed
  from a b c d s show ?thesis by (simp add: Let_def)
qed

theorem unusable_session_file_witness:
  "present garbled_file \<and> \<not> present no_file \<and> writable no_file
   \<and> loads sample_codec (contents garbled_file) = None
   \<and> load_session_info sample_codec garbled_file = JNull
   \<and> writable garbled_file
   \<and> fst (render_profile_info sample_codec ''dev-1'' (HttpResponse 200 (Some session_created))
        ((initial_world no_file)\<lparr>session_file := garbled_file\<rparr>)) =
     fst (render_profile_info sample_codec ''dev-1'' (HttpResponse 200 (Some session_created))
        ((initial_world no_file)\<lparr>session_file := no_file\<rparr>))
   \<and> truthy (load_session_info sample_codec list_file)
   \<and> fst (render_profile_info sample_codec ''dev-1'' (HttpResponse 200 (Some session_created))
        ((initial_world no_file)\<lparr>session_file := list_file\<rparr>)) = Inl AttributeError"
proof -
  have a: "present garbled_file" "present list_file"
    by (simp_all add: garbled_file_def list_file_def)
  have b: "\<not> present no_file" "writable no_file" by (simp_all add: no_file_def)
  have c: "loads sample_codec (contents garbled_file) = None" by (simp add: sample_defs)
  have d: "writable garbled_file" by (simp add: garbled_file_def)
  have e: "load_session_info sample_codec list_file = JList [JInt 1]"
    by (simp add: load_session_info_def read_session_def sample_defs)
  from unusable_session_file [OF a(1) b, of sample_codec "''dev-1''"
      "HttpResponse 200 (Some session_created)" "initial_world no_file"]
    unusable_session_file [OF a(2) b, of sample_codec "''dev-1''"
      "HttpResponse 200 (Some session_created)" "initial_world no_file"]
    a b c d e
  show ?thesis by (simp add: Let_def)
qed

section \<open>Tasks side by side\<close>

lemma task_step_returns_shared:
  assumes "task_step c e st w = (Finished (Inr v), w1)" and "st \<noteq> Finished (Inr v)"
  shows "v = account_info w1"
proof (cases e)
  case (Begin fresh)
  with assms show ?thesis
    by (cases st)
      (auto simp: render_start_def Let_def split: if_splits sum.splits)
next
  case (Arrives ev)
  with assms show ?thesis
    by (cases st)
      (auto simp: render_on_response_def split: http_event.splits if_splits)
next
  case BodyRead
  with assms show ?thesis
    by (cases st)
      (auto simp: render_on_body_def Let_def
        split: option.splits sum.splits if_splits prod.splits)
next
  case BlocksLeft
  with assms show ?thesis
    by (cases st) (auto simp: render_return_def)
qed

lemma task_step_keeps_not_None:
  assumes "account_info w \<noteq> JNull"
    and "\<forall>resp. st0 = AwaitBody (Some resp) \<longrightarrow>
           \<not> (valid_resp resp = Inr resp \<and> py_get resp ''data'' (JObj []) = Inr JNull)"
    and "\<forall>v. st0 = Finished (Inr v) \<longrightarrow> v \<noteq> JNull"
    and "\<not> carries_null_data e"
    and "task_step c e (st0) w = (st, w1)"
  shows "account_info w1 \<noteq> JNull
    \<and> (\<forall>resp. st = AwaitBody (Some resp) \<longrightarrow>
           \<not> (valid_resp resp = Inr resp \<and> py_get resp ''data'' (JObj []) = Inr JNull))
    \<and> (\<forall>v. st = Finished (Inr v) \<longrightarrow> v \<noteq> JNull)"
proof (cases e)
  case (Begin fresh)
  with assms show ?thesis
    by (cases "st0")
      (auto simp: render_start_def Let_def split: if_splits sum.splits dest: truthy_not_None)
next
  case (Arrives ev)
  with assms show ?thesis
    by (cases "st0"; cases ev)
      (auto simp: render_on_response_def split: if_splits)
next
  case BodyRead
  show ?thesis
  proof (cases "st0")
    case (AwaitBody body)
    show ?thesis
    proof (cases body)
      case None
      with assms BodyRead AwaitBody show ?thesis by (auto simp: render_on_body_def)
    next
      case (Some resp)
      show ?thesis
      proof (cases "valid_resp resp")
        case (Inl err)
        with assms BodyRead AwaitBody Some show ?thesis by (auto simp: render_on_body_def)
      next
        case (Inr r)
        then have r: "r = resp" by (simp add: valid_resp_Inr)
        from assms(2) AwaitBody Some Inr r
        have nn: "py_get resp ''data'' (JObj []) \<noteq> Inr JNull" by simp
        with assms BodyRead AwaitBody Some Inr show ?thesis
          by (auto simp: render_on_body_def Let_def split: sum.splits if_splits prod.splits)
      qed
    qed
  qed (use assms BodyRead in auto)
next
  case BlocksLeft
  with assms show ?thesis
    by (cases "st0") (auto simp: render_return_def)
qed

lemma run_schedule_keeps_not_None:
  assumes "account_info w \<noteq> JNull"
    and "\<forall>i resp. ts i = AwaitBody (Some resp) \<longrightarrow>
           \<not> (valid_resp resp = Inr resp \<and> py_get resp ''data'' (JObj []) = Inr JNull)"
    and "\<forall>i v. ts i = Finished (Inr v) \<longrightarrow> v \<noteq> JNull"
    and "no_null_data sched"
    and "run_schedule c sched w ts = (w', ts')"
  shows "account_info w' \<noteq> JNull \<and> (\<forall>i v. ts' i = Finished (Inr v) \<longrightarrow> v \<noteq> JNull)"
  using assms
proof (induction sched arbitrary: w ts)
  case Nil
  then show ?case by simp
next
  case (Cons ie sched)
  obtain i e where ie: "ie = (i, e)" by (cases ie)
  obtain st w1 where step: "task_step c e (ts i) w = (st, w1)"
    by (cases "task_step c e (ts i) w")
  from Cons.prems(4) ie have ne: "\<not> carries_null_data e" and rest: "no_null_data sched"
    by simp_all
  have k: "account_info w1 \<noteq> JNull
    \<and> (\<forall>resp. st = AwaitBody (Some resp) \<longrightarrow>
           \<not> (valid_resp resp = Inr resp \<and> py_get resp ''data'' (JObj []) = Inr JNull))
    \<and> (\<forall>v. st = Finished (Inr v) \<longrightarrow> v \<noteq> JNull)"
    using task_step_keeps_not_None [where ?st0.0 = "ts i", OF Cons.prems(1) _ _ ne step]
      Cons.prems(2,3) by blast
  from Cons.prems(5) ie step
  have run: "run_schedule c sched w1 (ts(i := st)) = (w', ts')" by simp
  show ?case
  proof (rule Cons.IH [OF _ _ _ rest run])
    show "account_info w1 \<noteq> JNull" using k by simp
    show "\<forall>j resp. (ts(i := st)) j = AwaitBody (Some resp) \<longrightarrow>
           \<not> (valid_resp resp = Inr resp \<and> py_get resp ''data'' (JObj []) = Inr JNull)"
      using k Cons.prems(2) by auto
    show "\<forall>j v. (ts(i := st)) j = Finished (Inr v) \<longrightarrow> v \<noteq> JNull"
      using k Cons.prems(3) by auto
  qed
qed

text \<open>
  A task run alone is the schedule of its four events with nothing in between.
\<close>

lemma render_start_shape:
  "render_start c fresh w = (st, w1) \<Longrightarrow> st = AwaitResponse \<or> (\<exists>r. st = Finished r)"
  by (auto simp: render_start_def Let_def split: if_splits sum.splits)

lemma render_on_body_shape:
  "render_on_body c body w = (st, w1) \<Longrightarrow> st = Leaving \<or> (\<exists>r. st = Finished r)"
  by (auto simp: render_on_body_def Let_def
      split: option.splits sum.splits if_splits prod.splits)

lemma run_alone_schedule:
  assumes "run_schedule c [(i, Begin fresh), (i, Arrives ev), (i, BodyRead), (i, BlocksLeft)]
     w not_started = (w', ts)"
  shows "ts i = Finished (fst (render_profile_info c fresh ev w))
   \<and> w' = snd (render_profile_info c fresh ev w)"
proof -
  obtain st1 w1 where s1: "render_start c fresh w = (st1, w1)"
    by (cases "render_start c fresh w")
  from render_start_shape [OF s1] show ?thesis
  proof
    assume "\<exists>r. st1 = Finished r"
    then obtain r where "st1 = Finished r" by blast
    with assms s1 show ?thesis
      by (auto simp: not_started_def render_profile_info_def)
  next
    assume a: "st1 = AwaitResponse"
    show ?thesis
    proof (cases ev)
      case NetFailure
      with assms s1 a show ?thesis
        by (auto simp: not_started_def render_profile_info_def render_on_response_def)
    next
      case (HttpResponse status body)
      show ?thesis
      proof (cases "status = 200")
        case False
        with assms s1 a HttpResponse show ?thesis
          by (auto simp: not_started_def render_profile_info_def render_on_response_def
              split: prod.splits)
      next
        case True
        obtain st3 w3 where s3: "render_on_body c body w1 = (st3, w3)"
          by (cases "render_on_body c body w1")
        from render_on_body_shape [OF s3] show ?thesis
        proof
          assume "st3 = Leaving"
          with assms s1 a HttpResponse True s3 show ?thesis
            by (auto simp: not_started_def render_profile_info_def render_on_response_def
                split: prod.splits)
        next
          assume "\<exists>r. st3 = Finished r"
          then obtain r where "st3 = Finished r" by blast
          with assms s1 a HttpResponse True s3 show ?thesis
            by (auto simp: not_started_def render_profile_info_def render_on_response_def)
        qed
      qed
    qed
  qed
qed

text \<open>
  C7, as stated, fails. Two tasks are created together and run up to their requests,
  both with the shared account information \<open>{}\<close>. Task 0 is answered
  \<open>{"code": 0, "data": null}\<close>, assigns \<open>None\<close> to the shared account information and
  raises. Task 1 is then answered with status 500 and completes without raising: it
  returns \<open>None\<close>.
\<close>

theorem task_returns_None_counterexample:
  "no_null_data null_then_500 = False
   \<and> snd (run_schedule sample_codec null_then_500 (initial_world no_file) not_started) 0 =
       Finished (Inl AttributeError)
   \<and> snd (run_schedule sample_codec null_then_500 (initial_world no_file) not_started) 1 =
       Finished (Inr JNull)"
  by (simp add: null_then_500_def not_started_def initial_world_def no_file_def null_data_def
      render_start_def render_on_response_def render_on_body_def render_return_def
      load_session_info_def valid_resp_def Let_def)

text \<open>
  C7, amended: a task that completes without raising returns the shared account
  information as it stands at that moment. In every schedule of task bodies that
  starts with the shared account information not \<open>None\<close> and in which no task is
  brought a create-session response of status 200 that passes validation with
  \<open>null\<close> for its \<open>"data"\<close>, the shared account information is never \<open>None\<close> and
  no task returns \<open>None\<close>: the supervisor's test \<open>task.result() is None\<close> is false
  for every task that completes without raising.
\<close>

theorem no_None_result_without_null_data:
  assumes "account_info w \<noteq> JNull" and "no_null_data sched"
    and "run_schedule c sched w not_started = (w', ts)"
  shows "account_info w' \<noteq> JNull
    \<and> (\<forall>i v. ts i = Finished (Inr v) \<longrightarrow> v \<noteq> JNull)
    \<and> (\<forall>e st w1 v w2. task_step c e st w1 = (Finished (Inr v), w2) \<and> st \<noteq> Finished (Inr v)
          \<longrightarrow> v = account_info w2)"
proof -
  have "account_info w' \<noteq> JNull \<and> (\<forall>i v. ts i = Finished (Inr v) \<longrightarrow> v \<noteq> JNull)"
    by (rule run_schedule_keeps_not_None [OF assms(1) _ _ assms(2,3)])
      (simp_all add: not_started_def)
  then show ?thesis using task_step_returns_shared by blast
qed

theorem no_None_result_without_null_data_witness:
  "account_info (initial_world no_file) \<noteq> JNull
   \<and> no_null_data created_then_500
   \<and> snd (run_schedule sample_codec created_then_500 (initial_world no_file) not_started) 1 =
       Finished (Inr sample_record)
   \<and> sample_record \<noteq> JNull"
proof -
  have a: "account_info (initial_world no_file) \<noteq> JNull" by (simp add: initial_world_def)
  have b: "no_null_data created_then_500"
    by (simp add: created_then_500_def session_created_def sample_record_def valid_resp_def)
  obtain w' ts where r: "run_schedule sample_codec created_then_500 (initial_world no_file)
      not_started = (w', ts)"
    by (cases "run_schedule sample_codec created_then_500 (initial_world no_file) not_started")
  have t: "snd (run_schedule sample_codec created_then_500 (initial_world no_file) not_started) 1
      = Finished (Inr sample_record)"
    by (simp add: created_then_500_def not_started_def initial_world_def sample_defs
      render_start_def render_on_response_def render_on_body_def render_return_def
      save_session_info_def write_file_def
      load_session_info_def valid_resp_def Let_def)
  from no_None_result_without_null_data [OF a b r] r t a b show ?thesis by auto
qed

section \<open>The device identifier\<close>

text \<open>
  C6: the code does not do what the claim says. With no session file, the device
  identifier \<open>dev-1\<close> is generated and the session created, but the record saved is
  the response's data alone: the file holds \<open>{"uid": "a1"}\<close>, loading it gives a
  record with no \<open>browser_id\<close>, and the next run adopts \<open>None\<close> as its device
  identifier.
\<close>

theorem generated_device_id_not_saved:
  "render_profile_info sample_codec ''dev-1'' (HttpResponse 200 (Some session_created))
     (initial_world no_file) =
     (Inr sample_record,
      \<lparr>status_connect = NONE_CONNECTION, browser_id = JStr ''dev-1'',
       account_info = sample_record, session_file = write_file sample_text no_file\<rparr>)
   \<and> load_session_info sample_codec (write_file sample_text no_file) = sample_record
   \<and> py_get sample_record ''browser_id'' JNull = Inr JNull
   \<and> render_profile_info sample_codec ''dev-2'' NetFailure
       (initial_world (write_file sample_text no_file)) =
     (Inr sample_record,
      \<lparr>status_connect = NONE_CONNECTION, browser_id = JNull,
       account_info = sample_record, session_file = write_file sample_text no_file\<rparr>)"
  by (simp add: render_defs load_session_info_def read_session_def
      save_session_info_def write_file_def initial_world_def valid_resp_def sample_defs Let_def)

text \<open>
  What \<open>render_profile_info\<close> leaves in the session file does not depend on the
  device identifier it generates.
\<close>

theorem session_file_ignores_generated_id:
  "session_file (snd (render_profile_info c fresh ev w)) =
   session_file (snd (render_profile_info c fresh' ev w))"
  by (auto simp: render_defs Let_def save_session_info_def
      split: sum.splits http_event.splits option.splits)

text \<open>
  A stored record that is a non-empty dict is adopted unchanged, and the device
  identifier becomes its \<open>browser_id\<close> entry, \<open>None\<close> when it has none; no request
  is made and the file is left alone.
\<close>

theorem stored_session_adopted:
  assumes "load_session_info c (session_file w) = JObj kvs" and "kvs \<noteq> []"
  shows "render_profile_info c fresh ev w =
    (Inr (JObj kvs),
     w\<lparr>account_info := JObj kvs,
       browser_id := (case map_of kvs ''browser_id'' of None \<Rightarrow> JNull | Some b \<Rightarrow> b)\<rparr>)"
  using assms by (simp add: render_defs Let_def)

theorem stored_session_adopted_witness:
  "load_session_info sample_codec (write_file sample_text no_file) = sample_record
   \<and> render_profile_info sample_codec ''dev-2'' NetFailure
       (initial_world (write_file sample_text no_file)) =
     (Inr sample_record,
      (initial_world (write_file sample_text no_file))
        \<lparr>account_info := sample_record, browser_id := JNull\<rparr>)"
proof -
  have a: "load_session_info sample_codec
      (session_file (initial_world (write_file sample_text no_file))) =
      JObj [(''uid'', JStr ''a1'')]"
    by (simp add: load_session_info_def read_session_def write_file_def initial_world_def
        sample_defs)
  have b: "[(''uid'', JStr ''a1'')] \<noteq> []" by simp
  from stored_session_adopted [OF a b, of "''dev-2''" NetFailure] a
  show ?thesis by (simp add: sample_record_def initial_world_def)
qed

section \<open>The supervisor\<close>

lemmas env_defs = every_proxy_valid_def second_invalid_def every_task_fails_def
  every_task_raises_def first_task_finished_def

lemma validate_loop_eq:
  "validate_loop net i ps acc =
     acc @ map snd (filter (\<lambda>(j, p). is_valid_proxy (net j)) (enumerate i ps))"
  by (induction ps arbitrary: i acc) auto

lemma validate_loop_validated:
  "validate_loop net 0 (map PStr candidates) [] = map PStr (validated net candidates)"
proof -
  have "map snd (filter (\<lambda>(j, p). is_valid_proxy (net j)) (enumerate i (map PStr cs))) =
        map PStr (map snd (filter (\<lambda>(j, p). is_valid_proxy (net j)) (enumerate i cs)))"
    for i cs
    by (induction cs arbitrary: i) auto
  then show ?thesis by (simp add: validate_loop_eq validated_def)
qed

lemma length_validated: "length (validated net candidates) \<le> length candidates"
proof -
  have "length (filter P (enumerate 0 candidates)) \<le> length (enumerate 0 candidates)" for P
    by (rule length_filter_le)
  then show ?thesis by (simp add: validated_def)
qed

lemma keys_setitem:
  "keys_are_proxies d \<Longrightarrow> is_str k \<Longrightarrow> keys_are_proxies (dict_setitem d k v)"
  by (induction d k v rule: dict_setitem.induct) auto

lemma setitem_nonempty: "dict_setitem d k v \<noteq> []"
  by (cases d) (auto split: if_splits)

lemma keys_create_tasks:
  "keys_are_proxies d \<Longrightarrow> list_all is_str ps \<Longrightarrow> create_tasks ps d n = (d', n') \<Longrightarrow>
   keys_are_proxies d'"
  by (induction ps d n rule: create_tasks.induct) (auto simp: keys_setitem)

lemma create_tasks_nonempty:
  "d \<noteq> [] \<or> ps \<noteq> [] \<Longrightarrow> create_tasks ps d n = (d', n') \<Longrightarrow> d' \<noteq> []"
  by (induction ps d n rule: create_tasks.induct) (auto simp: setitem_nonempty)

lemma getitem_task:
  "keys_are_proxies d \<Longrightarrow> is_task t \<Longrightarrow> dict_getitem d t = Inl KeyError"
  by (induction d t rule: dict_getitem.induct) (auto elim: is_task.elims is_str.elims)

lemma startup_state:
  assumes "main_startup proxy_file token net = Inr s"
  shows "keys_are_proxies (tasks s) \<and> tasks s \<noteq> [] \<and> active_proxies s \<noteq> []"
proof -
  from assms obtain ls where pf: "proxy_file = Some ls"
    by (cases proxy_file) (auto simp: main_startup_def load_proxies_def)
  let ?a = "validate_loop net 0 (map PStr ls) []"
  from assms pf have ne: "?a \<noteq> []" and tok: "token \<noteq> []"
    by (auto simp: main_startup_def load_proxies_def Let_def split: if_splits)
  obtain d n where ct: "create_tasks ?a [] 0 = (d, n)" by (cases "create_tasks ?a [] 0")
  from assms pf ne tok ct have s: "tasks s = d" "active_proxies s = ?a"
    by (auto simp: main_startup_def load_proxies_def Let_def)
  have "list_all is_str ?a"
    by (simp add: validate_loop_validated list_all_iff)
  with ct have "keys_are_proxies d" using keys_create_tasks [of "[]" ?a 0 d n] by simp
  moreover from ct ne have "d \<noteq> []" using create_tasks_nonempty [of "[]" ?a 0 d n] by simp
  ultimately show ?thesis using s ne by simp
qed

text \<open>
  C5: with a token given, the active list built at startup is the list of the
  candidates that validated, in input order, so it is not empty and no longer than the
  candidate list; when no candidate validates, \<open>main\<close> ends with \<open>SystemExit\<close>
  whatever the polling loop would have been given.
\<close>

theorem startup_filters_candidates:
  assumes "token \<noteq> []"
  shows "(validated net candidates = [] \<longrightarrow>
            main_startup (Some candidates) token net = Inl SystemExit
            \<and> main (Some candidates) token net passes result finished = Inl SystemExit)
     \<and> (validated net candidates \<noteq> [] \<longrightarrow>
          (\<exists>s. main_startup (Some candidates) token net = Inr s
             \<and> active_proxies s = map PStr (validated net candidates)
             \<and> 0 < length (active_proxies s)
             \<and> length (active_proxies s) \<le> length (validated net candidates)
             \<and> length (active_proxies s) \<le> length candidates))"
proof (cases "validated net candidates = []")
  case True
  then have "main_startup (Some candidates) token net = Inl SystemExit"
    using assms by (simp add: main_startup_def load_proxies_def validate_loop_validated)
  then show ?thesis using True by (simp add: main_def)
next
  case False
  obtain d n where ct: "create_tasks (map PStr (validated net candidates)) [] 0 = (d, n)"
    by (cases "create_tasks (map PStr (validated net candidates)) [] 0")
  have "main_startup (Some candidates) token net =
      Inr \<lparr>all_proxies = map PStr candidates,
           active_proxies = map PStr (validated net candidates), tasks = d, next_task = n\<rparr>"
    using assms False ct
    by (simp add: main_startup_def load_proxies_def validate_loop_validated)
  then show ?thesis using False length_validated [of net candidates] by simp
qed

theorem startup_filters_candidates_witness:
  "''token'' \<noteq> []
   \<and> validated second_invalid [''p1'', ''p2'', ''p3''] = [''p1'', ''p3'']
   \<and> (\<exists>s. main_startup (Some [''p1'', ''p2'', ''p3'']) ''token'' second_invalid = Inr s
       \<and> active_proxies s = [PStr ''p1'', PStr ''p3''])
   \<and> validated (\<lambda>i. NetFailure) [''p1'', ''p2''] = []
   \<and> main (Some [''p1'', ''p2'']) ''token'' (\<lambda>i. NetFailure) 1 every_task_fails
       first_task_finished = Inl SystemExit"
proof -
  have t: "''token'' \<noteq> []" by simp
  have v: "validated second_invalid [''p1'', ''p2'', ''p3''] = [''p1'', ''p3'']"
    by (simp add: validated_def second_invalid_def enumerate_eq_zip upt_rec)
  have n: "validated (\<lambda>i. NetFailure) [''p1'', ''p2''] = []"
    by (simp add: validated_def enumerate_eq_zip upt_rec)
  from startup_filters_candidates [OF t, of second_invalid "[''p1'', ''p2'', ''p3'']"]
    startup_filters_candidates [OF t, of "\<lambda>i. NetFailure" "[''p1'', ''p2'']" 1
      every_task_fails first_task_finished] v n
  show ?thesis by auto
qed

text \<open>
  After any startup that succeeds, the first pass of the polling loop in which a
  task has finished raises \<open>KeyError\<close>: the task dict is keyed by proxy strings, and
  \<open>tasks[task]\<close> looks a task up.
\<close>

theorem first_completion_raises_KeyError:
  assumes "main_startup proxy_file token net = Inr s"
    and "finished 0 = t # rest" and "is_task t"
  shows "main proxy_file token net (Suc passes) result finished = Inl KeyError"
proof -
  from startup_state [OF assms(1)] have k: "keys_are_proxies (tasks s)" and ne: "tasks s \<noteq> []"
    by simp_all
  have "handle_done result t s = Inl KeyError"
    by (simp add: handle_done_def getitem_task [OF k assms(3)])
  then have "main_cycle result (finished 0) s = Inl KeyError"
    using ne by (simp add: main_cycle_def assms(2))
  then show ?thesis by (simp add: main_def assms(1))
qed

theorem first_completion_raises_KeyError_witness:
  "main (Some [''p1'', ''p2'']) ''token'' every_proxy_valid (Suc 0) every_task_fails
     first_task_finished = Inl KeyError"
proof -
  obtain s where s: "main_startup (Some [''p1'', ''p2'']) ''token'' every_proxy_valid = Inr s"
    by (simp add: main_startup_def load_proxies_def every_proxy_valid_def Let_def)
  have f: "first_task_finished 0 = PTask 0 # []" by (simp add: first_task_finished_def)
  have t: "is_task (PTask 0)" by simp
  from first_completion_raises_KeyError [where finished = first_task_finished
      and passes = 0 and result = every_task_fails, OF s f t]
  show ?thesis .
qed

text \<open>
  C1: the code does not do what the claim says. With candidates \<open>p1\<close>, \<open>p2\<close> that
  both validate, \<open>p1\<close> stands in the active list and in the backlog
  (\<open>all_proxies\<close>) at once; when the task of \<open>p1\<close> completes with \<open>None\<close>, the
  loop raises \<open>KeyError\<close> instead of replacing it; and the replacement block, run on
  that state, pops \<open>p1\<close> itself from the backlog and appends it to the active list
  again, leaving \<open>p2\<close> in both lists.
\<close>

theorem failed_proxy_not_replaced:
  "main_startup (Some [''p1'', ''p2'']) ''token'' every_proxy_valid =
     Inr \<lparr>all_proxies = [PStr ''p1'', PStr ''p2''],
          active_proxies = [PStr ''p1'', PStr ''p2''],
          tasks = [(PStr ''p1'', PTask 0), (PStr ''p2'', PTask 1)], next_task = 2\<rparr>
   \<and> in_both_pools (PStr ''p1'')
       \<lparr>all_proxies = [PStr ''p1'', PStr ''p2''],
        active_proxies = [PStr ''p1'', PStr ''p2''],
        tasks = [(PStr ''p1'', PTask 0), (PStr ''p2'', PTask 1)], next_task = 2\<rparr>
   \<and> main (Some [''p1'', ''p2'']) ''token'' every_proxy_valid 1 every_task_fails
       first_task_finished = Inl KeyError
   \<and> replace_failed (PStr ''p1'')
       \<lparr>all_proxies = [PStr ''p1'', PStr ''p2''],
        active_proxies = [PStr ''p1'', PStr ''p2''],
        tasks = [(PStr ''p1'', PTask 0), (PStr ''p2'', PTask 1)], next_task = 2\<rparr> =
     Inr \<lparr>all_proxies = [PStr ''p2''],
          active_proxies = [PStr ''p2'', PStr ''p1''],
          tasks = [(PStr ''p1'', PTask 2), (PStr ''p2'', PTask 1)], next_task = 3\<rparr>"
  by (simp add: main_def main_startup_def load_proxies_def main_cycle_def handle_done_def
      replace_failed_def in_both_pools_def env_defs Let_def numeral_2_eq_2 numeral_3_eq_3)

text \<open>
  C2: the code does not do what the claim says. A create-session response
  \<open>{"code": -1}\<close> and a network failure both leave \<open>render_profile_info\<close> as an
  exception, not as an outcome value; \<open>task.result()\<close> raises it again in the
  control loop; and the run of \<open>main\<close> in which that task finishes ends with an
  exception.
\<close>

theorem task_failure_reaches_loop_as_exception:
  "render_profile_info sample_codec ''dev-1'' (HttpResponse 200 (Some ping_rejected))
     (initial_world no_file) =
     (Inl ValueError, (initial_world no_file)\<lparr>browser_id := JStr ''dev-1''\<rparr>)
   \<and> render_profile_info sample_codec ''dev-1'' NetFailure (initial_world no_file) =
     (Inl ClientError, (initial_world no_file)\<lparr>browser_id := JStr ''dev-1''\<rparr>)
   \<and> task_result every_task_raises (PTask 0) = Inl ValueError
   \<and> main (Some [''p1'', ''p2'']) ''token'' every_proxy_valid 1 every_task_raises
       first_task_finished = Inl KeyError"
  by (simp add: main_def main_startup_def load_proxies_def main_cycle_def handle_done_def
      env_defs render_defs load_session_info_def initial_world_def no_file_def
      ping_rejected_def valid_resp_def Let_def)

text \<open>
  C3: the code does not do what the claim says. With candidates \<open>p1\<close>, \<open>p2\<close>,
  \<open>p3\<close> of which \<open>p2\<close> fails validation, the active list is \<open>p1\<close>, \<open>p3\<close>
  and the backlog still holds all three; the first finished task ends the loop with
  \<open>KeyError\<close>; the replacement block on an empty backlog raises \<open>IndexError\<close>
  instead of leaving the slot empty; and a pass with no task left raises
  \<open>ValueError\<close>.
\<close>

theorem empty_backlog_crashes:
  "main_startup (Some [''p1'', ''p2'', ''p3'']) ''token'' second_invalid =
     Inr \<lparr>all_proxies = [PStr ''p1'', PStr ''p2'', PStr ''p3''],
          active_proxies = [PStr ''p1'', PStr ''p3''],
          tasks = [(PStr ''p1'', PTask 0), (PStr ''p3'', PTask 1)], next_task = 2\<rparr>
   \<and> main (Some [''p1'', ''p2'', ''p3'']) ''token'' second_invalid 1 every_task_fails
       first_task_finished = Inl KeyError
   \<and> replace_failed (PStr ''p1'')
       \<lparr>all_proxies = [], active_proxies = [PStr ''p1'', PStr ''p3''],
        tasks = [(PStr ''p1'', PTask 0), (PStr ''p3'', PTask 1)], next_task = 2\<rparr> =
     Inl IndexError
   \<and> main_cycle every_task_fails []
       \<lparr>all_proxies = [], active_proxies = [], tasks = [], next_task = 2\<rparr> = Inl ValueError"
  by (simp add: main_def main_startup_def load_proxies_def main_cycle_def handle_done_def
      replace_failed_def env_defs Let_def numeral_2_eq_2 numeral_3_eq_3)

end
